theory Spec2Isabelle
  imports Main "HOL-Library.Word"
begin

section \<open>Time Series Insights Environment resource\<close>

text \<open>
  A shallow embedding of \<^verbatim>\<open>resource_time_series_insights_environment.go\<close>:
  the schema validators of \<^verbatim>\<open>name\<close> and \<^verbatim>\<open>sku_name\<close>, the two SKU
  transforms \<^verbatim>\<open>expandEnvironmentSkuName\<close> and \<^verbatim>\<open>flattenEnvironmentSkuName\<close>,
  and the three handlers (create/update, read, delete) over an explicit log of the
  requests sent to the management API.

  Go strings are byte sequences, so a \<^typ>\<open>string\<close> is read as the bytes of the Go
  string. The target is a 64-bit platform: Go's \<^verbatim>\<open>int\<close> is \<^typ>\<open>64 word\<close>,
  \<^verbatim>\<open>int32\<close> is \<^typ>\<open>32 word\<close>, both read with \<^const>\<open>sint\<close>.
\<close>

subsection \<open>Errors and panics\<close>

text \<open>The two run-time panics the file can raise.\<close>

datatype panic =
    IndexOutOfRange nat nat \<comment> \<open>index, length of the slice\<close>
  | NilPointerDereference

text \<open>
  One constructor for each \<^verbatim>\<open>fmt.Errorf\<close> of the file, with the values it formats;
  \<open>SdkError\<close> stands for an error of the SDK (or of the plugin host) handed on.
\<close>

type_synonym sdk_error = string

datatype error =
    WrongNumberOfParts string nat \<comment> \<open>line 244\<close>
  | UnknownSkuTier string string \<comment> \<open>line 254\<close>
  | CannotConvertCapacity string string \<comment> \<open>line 259\<close>
  | ExpandingSku error \<comment> \<open>line 118\<close>
  | CheckingForPresence string string sdk_error \<comment> \<open>line 125\<close>
  | ExistingNotStandard string string \<comment> \<open>lines 132 and 203\<close>
  | ImportAsExists string string \<comment> \<open>line 136: resource type and the ID found\<close>
  | CreatingUpdating string string sdk_error \<comment> \<open>line 155\<close>
  | WaitingForCompletion string string sdk_error \<comment> \<open>line 159\<close>
  | Retrieving string string "sdk_error option" \<comment> \<open>lines 164 and 198\<close>
  | NotStandard string string \<comment> \<open>line 169\<close>
  | CannotReadID string string \<comment> \<open>line 173\<close>
  | Deleting string string sdk_error \<comment> \<open>line 234\<close>
  | SdkError sdk_error

datatype failure = Error error | Panic panic

subsection \<open>The Go library functions the file calls\<close>

text \<open>A slice read \<^verbatim>\<open>parts[i]\<close>: Go panics when the index is out of range.\<close>

definition index :: "'a list \<Rightarrow> nat \<Rightarrow> failure + 'a" where
  "index xs i = (if i < length xs then Inr (xs ! i) else Inl (Panic (IndexOutOfRange i (length xs))))"

text \<open>
  \<^verbatim>\<open>strings.Split(s, sep)\<close> for a separator of one byte, the only use the file makes of
  it: the pieces between the separators, so one piece more than there are separators
  (the empty string gives one empty piece).
\<close>

fun Split :: "string \<Rightarrow> char \<Rightarrow> string list" where
  "Split [] sep = [[]]"
| "Split (c # cs) sep =
     (if c = sep then [] # Split cs sep
      else (case Split cs sep of [] \<Rightarrow> [[c]] | p # ps \<Rightarrow> (c # p) # ps))"

datatype num_error = ErrSyntax | ErrRange

definition is_digit :: "char \<Rightarrow> bool" where
  "is_digit c = (48 \<le> (of_char c :: nat) \<and> (of_char c :: nat) \<le> 57)"

definition digit_val :: "char \<Rightarrow> nat" where
  "digit_val c = of_char c - 48"

text \<open>
  The scan of \<^verbatim>\<open>strconv.ParseUint(s, 10, 64)\<close>: left to right, a byte that is no
  decimal digit is a syntax error, a value beyond \<open>2^64 - 1\<close> a range error, whichever
  comes first.
\<close>

fun scan_digits :: "nat \<Rightarrow> string \<Rightarrow> num_error + nat" where
  "scan_digits n [] = Inr n"
| "scan_digits n (c # cs) =
     (if \<not> is_digit c then Inl ErrSyntax
      else if 2 ^ 64 \<le> n * 10 + digit_val c then Inl ErrRange
      else scan_digits (n * 10 + digit_val c) cs)"

text \<open>
  \<^verbatim>\<open>strconv.Atoi\<close> where \<^verbatim>\<open>int\<close> has 64 bits: an optional sign, then at least one
  decimal digit and nothing else; the value must fit \<^verbatim>\<open>int64\<close>.
\<close>

definition Atoi :: "string \<Rightarrow> num_error + 64 word" where
  "Atoi s =
     (let neg = (s \<noteq> [] \<and> hd s = CHR ''-'');
          ds = (if s \<noteq> [] \<and> (hd s = CHR ''-'' \<or> hd s = CHR ''+'') then tl s else s)
      in if ds = [] then Inl ErrSyntax
         else (case scan_digits 0 ds of
                 Inl e \<Rightarrow> Inl e
               | Inr un \<Rightarrow>
                   if \<not> neg \<and> 2 ^ 63 \<le> un then Inl ErrRange
                   else if neg \<and> 2 ^ 63 < un then Inl ErrRange
                   else Inr (if neg then - word_of_nat un else word_of_nat un)))"

text \<open>The decimal digits of a natural number, most significant first.\<close>

definition digit_char :: "nat \<Rightarrow> char" where
  "digit_char d = char_of (48 + d)"

fun digits :: "nat \<Rightarrow> string" where
  "digits n = (if n < 10 then [digit_char n] else digits (n div 10) @ [digit_char (n mod 10)])"

declare digits.simps [simp del]

text \<open>The verb \<^verbatim>\<open>%d\<close> of \<^verbatim>\<open>fmt.Sprintf\<close> on a signed integer.\<close>

definition FormatInt :: "int \<Rightarrow> string" where
  "FormatInt i = (if i < 0 then CHR ''-'' # digits (nat (- i)) else digits (nat i))"

subsection \<open>The SKU of the SDK\<close>

text \<open>
  \<^verbatim>\<open>timeseriesinsights.SkuName\<close> is a string type with named constants;
  \<^verbatim>\<open>timeseriesinsights.Sku\<close> has a name and a capacity behind a pointer.
\<close>

type_synonym SkuName = string

definition S1 :: SkuName where "S1 = ''S1''"
definition S2 :: SkuName where "S2 = ''S2''"

record Sku =
  Name :: SkuName
  Capacity :: "32 word option"

subsection \<open>expandEnvironmentSkuName and flattenEnvironmentSkuName\<close>

text \<open>
  Lines 241 to 266. The arguments of the \<^verbatim>\<open>fmt.Errorf\<close> of line 259 are evaluated
  before the call, \<^verbatim>\<open>parts[2]\<close> among them.
\<close>

definition expandEnvironmentSkuName :: "string \<Rightarrow> failure + Sku" where
  "expandEnvironmentSkuName skuName =
     (let parts = Split skuName CHR ''_'' in
      if length parts \<noteq> 2 then Inl (Error (WrongNumberOfParts skuName (length parts)))
      else (case index parts 0 of
              Inl f \<Rightarrow> Inl f
            | Inr p0 \<Rightarrow>
               (case (if p0 = ''S1'' then Inr S1
                      else if p0 = ''S2'' then Inr S2
                      else Inl (Error (UnknownSkuTier skuName p0))) of
                  Inl f \<Rightarrow> Inl f
                | Inr name \<Rightarrow>
                   (case index parts 1 of
                      Inl f \<Rightarrow> Inl f
                    | Inr p1 \<Rightarrow>
                       (case Atoi p1 of
                          Inl err \<Rightarrow>
                            (case index parts 2 of
                               Inl f \<Rightarrow> Inl f
                             | Inr p2 \<Rightarrow> Inl (Error (CannotConvertCapacity skuName p2)))
                        | Inr capacity \<Rightarrow>
                            Inr \<lparr>Name = name, Capacity = Some (ucast capacity)\<rparr>)))))"

text \<open>
  A read through a pointer, \<^verbatim>\<open>*p\<close> or \<^verbatim>\<open>p.Field\<close>: \<open>None\<close> is \<^verbatim>\<open>nil\<close>, and Go
  panics on it.
\<close>

definition deref :: "'a option \<Rightarrow> failure + 'a" where
  "deref p = (case p of None \<Rightarrow> Inl (Panic NilPointerDereference) | Some v \<Rightarrow> Inr v)"

text \<open>
  Lines 268 to 274. The argument and its capacity are pointers, and every read through
  them is a \<^const>\<open>deref\<close>: \<^verbatim>\<open>input.Capacity\<close> in the condition, which \<^verbatim>\<open>||\<close>
  evaluates only when \<^verbatim>\<open>input\<close> is not nil, then \<^verbatim>\<open>input.Name\<close> and
  \<^verbatim>\<open>*input.Capacity\<close> in the arguments of \<^verbatim>\<open>fmt.Sprintf\<close>.
\<close>

definition flattenEnvironmentSkuName :: "Sku option \<Rightarrow> failure + string" where
  "flattenEnvironmentSkuName input =
     (case (if input = None then Inr True
            else (case deref input of
                    Inl f \<Rightarrow> Inl f
                  | Inr sku \<Rightarrow> Inr (Capacity sku = None))) of
        Inl f \<Rightarrow> Inl f
      | Inr absent \<Rightarrow>
          if absent then Inr ''''
          else (case deref input of
                  Inl f \<Rightarrow> Inl f
                | Inr sku \<Rightarrow>
                   (case deref (Capacity sku) of
                      Inl f \<Rightarrow> Inl f
                    | Inr c \<Rightarrow> Inr (Name sku @ ''_'' @ FormatInt (sint c)))))"

subsection \<open>The schema validators\<close>

text \<open>
  Lines 48 to 51: \<^verbatim>\<open>validation.StringMatch\<close> accepts a value the regular expression
  \<^verbatim>\<open>^[-\w\._\(\)]+$\<close> matches. In Go's syntax \<^verbatim>\<open>\w\<close> is the ASCII class
  \<^verbatim>\<open>[0-9A-Za-z_]\<close> and \<^verbatim>\<open>$\<close> is the end of the text, so the value is one or more
  bytes of the class and nothing else.
\<close>

definition word_char :: "char \<Rightarrow> bool" where
  "word_char c =
     (let n = (of_char c :: nat)
      in (48 \<le> n \<and> n \<le> 57) \<or> (65 \<le> n \<and> n \<le> 90) \<or> (97 \<le> n \<and> n \<le> 122) \<or> c = CHR ''_'')"

definition name_char :: "char \<Rightarrow> bool" where
  "name_char c =
     (c = CHR ''-'' \<or> word_char c \<or> c = CHR ''.'' \<or> c = CHR ''_'' \<or> c = CHR ''('' \<or> c = CHR '')'')"

definition name_ValidateFunc :: "string \<Rightarrow> bool" where
  "name_ValidateFunc v = (v \<noteq> [] \<and> list_all name_char v)"

text \<open>
  The pattern the specification gives for the name, \<^verbatim>\<open>[-\w\._\(\)]{1,90}\<close>: the same
  class, between 1 and 90 times.
\<close>

definition spec_name_pattern :: "string \<Rightarrow> bool" where
  "spec_name_pattern v = (1 \<le> length v \<and> length v \<le> 90 \<and> list_all name_char v)"

text \<open>Lines 61 to 82: the values \<^verbatim>\<open>validation.StringInSlice\<close> accepts, case kept.\<close>

definition sku_name_values :: "string list" where
  "sku_name_values =
     [''S1_1'', ''S1_2'', ''S1_3'', ''S1_4'', ''S1_5'', ''S1_6'', ''S1_7'', ''S1_8'', ''S1_9'', ''S1_10'',
      ''S2_1'', ''S2_2'', ''S2_3'', ''S2_4'', ''S2_5'', ''S2_6'', ''S2_7'', ''S2_8'', ''S2_9'', ''S2_10'']"

definition sku_name_ValidateFunc :: "string \<Rightarrow> bool" where
  "sku_name_ValidateFunc v = (v \<in> set sku_name_values)"

text \<open>
  A SKU string is accepted when it passes the validator of the schema and
  \<^const>\<open>expandEnvironmentSkuName\<close> returns a SKU for it.
\<close>

definition sku_name_accepted :: "string \<Rightarrow> bool" where
  "sku_name_accepted v =
     (sku_name_ValidateFunc v \<and>
      (case expandEnvironmentSkuName v of Inl f \<Rightarrow> False | Inr sku \<Rightarrow> True))"

text \<open>
  The set the specification enumerates: a tier of \<open>S1\<close>, \<open>S2\<close> and a capacity of 1 to 10,
  joined by an underscore.
\<close>

definition spec_sku_names :: "string list" where
  "spec_sku_names = concat (map (\<lambda>tier. map (\<lambda>c. tier @ ''_'' @ FormatInt c) [1..10]) [S1, S2])"

subsection \<open>The resources of the SDK and the state of the plugin host\<close>

record StandardEnvironmentResourceProperties =
  StorageLimitExceededBehavior :: string
  DataRetentionTime :: "string option"

record StandardEnvironmentResource =
  EnvSku :: "Sku option"
  EnvID :: "string option"
  EnvName :: "string option"
  EnvLocation :: "string option"
  EnvTags :: "string \<rightharpoonup> string option"
  EnvProperties :: "StandardEnvironmentResourceProperties option"

text \<open>
  \<^verbatim>\<open>BasicEnvironmentResource\<close> is an interface with three implementations, told apart
  by the kind of the environment; the two that are not standard carry their ID here.
\<close>

datatype BasicEnvironmentResource =
    AStandardEnvironmentResource StandardEnvironmentResource
  | ALongTermEnvironmentResource "string option"
  | AnEnvironmentResource "string option"

fun AsStandardEnvironmentResource :: "BasicEnvironmentResource \<Rightarrow> StandardEnvironmentResource option" where
  "AsStandardEnvironmentResource (AStandardEnvironmentResource e) = Some e"
| "AsStandardEnvironmentResource (ALongTermEnvironmentResource i) = None"
| "AsStandardEnvironmentResource (AnEnvironmentResource i) = None"

text \<open>
  \<^verbatim>\<open>EnvironmentResourceModel\<close>, the result of a Get: the HTTP response, of which only
  the status code is read (\<open>None\<close> when there is no response), and the resource.
\<close>

record EnvironmentResourceModel =
  Response :: "nat option"
  Value :: "BasicEnvironmentResource option"

text \<open>
  Modelled from the spec: \<^verbatim>\<open>utils.ResponseWasNotFound\<close> is not among the sources; the
  remote reports "not found" with the HTTP status 404.
\<close>

definition ResponseWasNotFound :: "nat option \<Rightarrow> bool" where
  "ResponseWasNotFound r = (r = Some 404)"

record StandardEnvironmentCreateOrUpdateParameters =
  ParamLocation :: string
  ParamTags :: "string \<rightharpoonup> string option"
  ParamSku :: Sku
  ParamStorageLimitExceededBehavior :: string
  ParamDataRetentionTime :: string

text \<open>The requests a handler sends to the management API, logged in the order sent.\<close>

datatype request =
    GetRequest string string
  | CreateOrUpdateRequest string string StandardEnvironmentCreateOrUpdateParameters
  | WaitForCompletionRequest string string
  | DeleteRequest string string

fun mutating :: "request \<Rightarrow> bool" where
  "mutating (GetRequest g n) = False"
| "mutating (CreateOrUpdateRequest g n p) = True"
| "mutating (WaitForCompletionRequest g n) = False"
| "mutating (DeleteRequest g n) = True"

text \<open>
  The client of the SDK: what the remote answers to a request, which may depend on all
  the requests sent before it.
\<close>

record EnvironmentsClient =
  Get :: "request list \<Rightarrow> string \<Rightarrow> string \<Rightarrow> EnvironmentResourceModel \<times> sdk_error option"
  CreateOrUpdate :: "request list \<Rightarrow> string \<Rightarrow> string \<Rightarrow> StandardEnvironmentCreateOrUpdateParameters
     \<Rightarrow> sdk_error option"
  WaitForCompletionRef :: "request list \<Rightarrow> string \<Rightarrow> string \<Rightarrow> sdk_error option"
  Delete :: "request list \<Rightarrow> string \<Rightarrow> string \<Rightarrow> nat option \<times> sdk_error option"

text \<open>\<^verbatim>\<open>schema.ResourceData\<close>: the ID, the new-resource flag and the fields of the schema.\<close>

record ResourceData =
  d_Id :: string
  IsNewResource :: bool
  d_name :: string
  d_location :: string
  d_resource_group_name :: string
  d_sku_name :: string
  d_storage_limited_exceeded_behavior :: string
  d_data_retention_time :: string
  d_tags :: "string \<rightharpoonup> string"

record TimeSeriesInsightsEnvironmentId =
  ResourceGroup :: string
  IdName :: string

text \<open>
  The functions of the provider that the handlers call and that are not among the
  sources, taken as parameters: the feature flag, the parser of the ID, the
  normalisation of the location and the two conversions of the tags.
\<close>

record helpers =
  ShouldResourcesBeImported :: bool
  TimeSeriesInsightsEnvironmentID :: "string \<Rightarrow> sdk_error + TimeSeriesInsightsEnvironmentId"
  NormalizeLocation :: "string \<Rightarrow> string"
  tags_Expand :: "(string \<rightharpoonup> string) \<Rightarrow> (string \<rightharpoonup> string option)"
  tags_FlattenAndSet :: "ResourceData \<Rightarrow> (string \<rightharpoonup> string option) \<Rightarrow> sdk_error option \<times> ResourceData"

text \<open>
  A handler returns its error (\<open>None\<close> is \<^verbatim>\<open>nil\<close>), the resource data as it left it
  and the log of requests extended by those it sent.
\<close>

type_synonym outcome = "failure option \<times> ResourceData \<times> request list"

text \<open>\<^verbatim>\<open>d.Set\<close> of a string pointer: \<^verbatim>\<open>nil\<close> stores the zero value.\<close>

definition deref_or_empty :: "string option \<Rightarrow> string" where
  "deref_or_empty p = (case p of None \<Rightarrow> '''' | Some v \<Rightarrow> v)"

subsection \<open>The handlers\<close>

text \<open>Lines 181 to 219.\<close>

definition resourceArmTimeSeriesInsightsEnvironmentRead ::
  "helpers \<Rightarrow> EnvironmentsClient \<Rightarrow> ResourceData \<Rightarrow> request list \<Rightarrow> outcome" where
  "resourceArmTimeSeriesInsightsEnvironmentRead h client d log =
     (case TimeSeriesInsightsEnvironmentID h (d_Id d) of
        Inl err \<Rightarrow> (Some (Error (SdkError err)), d, log)
      | Inr parsed \<Rightarrow>
         (let (resp, err) = Get client log (ResourceGroup parsed) (IdName parsed);
              log1 = log @ [GetRequest (ResourceGroup parsed) (IdName parsed)]
          in if err \<noteq> None \<or> Value resp = None then
               (if ResponseWasNotFound (Response resp) then (None, d\<lparr>d_Id := ''''\<rparr>, log1)
                else (Some (Error (Retrieving (IdName parsed) (ResourceGroup parsed) err)), d, log1))
             else
               (case Value resp of
                  None \<Rightarrow> (Some (Panic NilPointerDereference), d, log1)
                | Some v \<Rightarrow>
                   (case AsStandardEnvironmentResource v of
                      None \<Rightarrow> (Some (Error (ExistingNotStandard (IdName parsed) (ResourceGroup parsed))), d, log1)
                    | Some environment \<Rightarrow>
                       (let d0 = d\<lparr>d_name := deref_or_empty (EnvName environment),
                                   d_resource_group_name := ResourceGroup parsed\<rparr>
                        in (case flattenEnvironmentSkuName (EnvSku environment) of
                              Inl f \<Rightarrow> (Some f, d0, log1)
                            | Inr skuName \<Rightarrow>
                               (let d1 = d0\<lparr>d_sku_name := skuName\<rparr>;
                                    d2 = (case EnvLocation environment of
                                            None \<Rightarrow> d1
                                          | Some location \<Rightarrow> d1\<lparr>d_location := NormalizeLocation h location\<rparr>);
                                    d3 = (case EnvProperties environment of
                                            None \<Rightarrow> d2
                                          | Some props \<Rightarrow>
                                              d2\<lparr>d_storage_limited_exceeded_behavior :=
                                                    StorageLimitExceededBehavior props,
                                                 d_data_retention_time :=
                                                    deref_or_empty (DataRetentionTime props)\<rparr>);
                                    (err2, d4) = tags_FlattenAndSet h d3 (EnvTags environment)
                                in (map_option (\<lambda>e. Error (SdkError e)) err2, d4, log1))))))))"

text \<open>Lines 221 to 239.\<close>

definition resourceArmTimeSeriesInsightsEnvironmentDelete ::
  "helpers \<Rightarrow> EnvironmentsClient \<Rightarrow> ResourceData \<Rightarrow> request list \<Rightarrow> outcome" where
  "resourceArmTimeSeriesInsightsEnvironmentDelete h client d log =
     (case TimeSeriesInsightsEnvironmentID h (d_Id d) of
        Inl err \<Rightarrow> (Some (Error (SdkError err)), d, log)
      | Inr parsed \<Rightarrow>
         (let (response, err) = Delete client log (ResourceGroup parsed) (IdName parsed);
              log1 = log @ [DeleteRequest (ResourceGroup parsed) (IdName parsed)]
          in (case err of
                None \<Rightarrow> (None, d, log1)
              | Some e \<Rightarrow>
                  if \<not> ResponseWasNotFound response
                  then (Some (Error (Deleting (IdName parsed) (ResourceGroup parsed) e)), d, log1)
                  else (None, d, log1))))"

text \<open>
  Lines 121 to 139, the check for a resource that exists already: \<open>None\<close> lets the
  handler go on, and the request is logged either way.
\<close>

definition check_existing ::
  "EnvironmentsClient \<Rightarrow> string \<Rightarrow> string \<Rightarrow> request list \<Rightarrow> failure option \<times> request list" where
  "check_existing client resourceGroup n log =
     (let (existing, err) = Get client log resourceGroup n;
          log1 = log @ [GetRequest resourceGroup n]
      in (case (case err of
                  None \<Rightarrow> None
                | Some e \<Rightarrow>
                    if \<not> ResponseWasNotFound (Response existing)
                    then Some (Error (CheckingForPresence n resourceGroup e)) else None) of
            Some f \<Rightarrow> (Some f, log1)
          | None \<Rightarrow>
             (case Value existing of
                None \<Rightarrow> (None, log1)
              | Some v \<Rightarrow>
                 (case AsStandardEnvironmentResource v of
                    None \<Rightarrow> (Some (Error (ExistingNotStandard n resourceGroup)), log1)
                  | Some environment \<Rightarrow>
                     (case EnvID environment of
                        None \<Rightarrow> (None, log1)
                      | Some i \<Rightarrow>
                          if i \<noteq> ''''
                          then (Some (Error (ImportAsExists ''azurerm_time_series_insights_environment'' i)), log1)
                          else (None, log1))))))"

text \<open>Lines 141 to 178, from the request built to the read that ends the handler.\<close>

definition create_and_read ::
  "helpers \<Rightarrow> EnvironmentsClient \<Rightarrow> ResourceData \<Rightarrow> string \<Rightarrow> string \<Rightarrow> string \<Rightarrow> Sku
     \<Rightarrow> request list \<Rightarrow> outcome" where
  "create_and_read h client d n location resourceGroup sku log =
     (let environment = \<lparr>ParamLocation = location,
                         ParamTags = tags_Expand h (d_tags d),
                         ParamSku = sku,
                         ParamStorageLimitExceededBehavior = d_storage_limited_exceeded_behavior d,
                         ParamDataRetentionTime = d_data_retention_time d\<rparr>;
          log1 = log @ [CreateOrUpdateRequest resourceGroup n environment]
      in (case CreateOrUpdate client log resourceGroup n environment of
            Some e \<Rightarrow> (Some (Error (CreatingUpdating n resourceGroup e)), d, log1)
          | None \<Rightarrow>
             (let log2 = log1 @ [WaitForCompletionRequest resourceGroup n]
              in (case WaitForCompletionRef client log1 resourceGroup n of
                    Some e \<Rightarrow> (Some (Error (WaitingForCompletion n resourceGroup e)), d, log2)
                  | None \<Rightarrow>
                     (let (resp, err) = Get client log2 resourceGroup n;
                          log3 = log2 @ [GetRequest resourceGroup n]
                      in (case err of
                            Some e \<Rightarrow> (Some (Error (Retrieving n resourceGroup (Some e))), d, log3)
                          | None \<Rightarrow>
                             (case Value resp of
                                None \<Rightarrow> (Some (Panic NilPointerDereference), d, log3)
                              | Some v \<Rightarrow>
                                 (case AsStandardEnvironmentResource v of
                                    None \<Rightarrow> (Some (Error (NotStandard n resourceGroup)), d, log3)
                                  | Some resource \<Rightarrow>
                                     (case EnvID resource of
                                        None \<Rightarrow> (Some (Error (CannotReadID n resourceGroup)), d, log3)
                                      | Some i \<Rightarrow>
                                          resourceArmTimeSeriesInsightsEnvironmentRead h client
                                            (d\<lparr>d_Id := i\<rparr>) log3)))))))))"

text \<open>Lines 107 to 179.\<close>

definition resourceArmTimeSeriesInsightsEnvironmentCreateUpdate ::
  "helpers \<Rightarrow> EnvironmentsClient \<Rightarrow> ResourceData \<Rightarrow> request list \<Rightarrow> outcome" where
  "resourceArmTimeSeriesInsightsEnvironmentCreateUpdate h client d log =
     (let n = d_name d;
          location = NormalizeLocation h (d_location d);
          resourceGroup = d_resource_group_name d
      in (case expandEnvironmentSkuName (d_sku_name d) of
            Inl (Error e) \<Rightarrow> (Some (Error (ExpandingSku e)), d, log)
          | Inl (Panic p) \<Rightarrow> (Some (Panic p), d, log)
          | Inr sku \<Rightarrow>
             (if ShouldResourcesBeImported h \<and> IsNewResource d then
                (case check_existing client resourceGroup n log of
                   (Some f, log1) \<Rightarrow> (Some f, d, log1)
                 | (None, log1) \<Rightarrow> create_and_read h client d n location resourceGroup sku log1)
              else create_and_read h client d n location resourceGroup sku log)))"

subsection \<open>The ID of a resource of any kind, and a sample configuration\<close>

text \<open>
  The ID a resource of the remote carries, whatever its kind; the code reads it of a
  standard environment only.
\<close>

fun ID_of :: "BasicEnvironmentResource \<Rightarrow> string option" where
  "ID_of (AStandardEnvironmentResource e) = EnvID e"
| "ID_of (ALongTermEnvironmentResource i) = i"
| "ID_of (AnEnvironmentResource i) = i"

text \<open>
  Sample values on which the theorems are instantiated: an ID and a parser that knows
  it, helpers that import, the configuration of a new resource \<open>env1\<close> and the same
  once it has its ID, a remote where nothing exists, and a remote holding one given
  resource.
\<close>

definition example_id :: string where
  "example_id =
     ''/subscriptions/0/resourceGroups/rg/providers/Microsoft.TimeSeriesInsights/environments/env1''"

definition example_helpers :: helpers where
  "example_helpers =
     \<lparr>ShouldResourcesBeImported = True,
      TimeSeriesInsightsEnvironmentID =
        (\<lambda>s. if s = example_id then Inr \<lparr>ResourceGroup = ''rg'', IdName = ''env1''\<rparr>
             else Inl ''cannot parse the ID''),
      NormalizeLocation = (\<lambda>l. l),
      tags_Expand = (\<lambda>t k. map_option Some (t k)),
      tags_FlattenAndSet = (\<lambda>d t. (None, d))\<rparr>"

definition new_data :: ResourceData where
  "new_data =
     \<lparr>d_Id = '''', IsNewResource = True, d_name = ''env1'', d_location = ''westus'',
      d_resource_group_name = ''rg'', d_sku_name = ''S1_5'',
      d_storage_limited_exceeded_behavior = ''PurgeOldData'', d_data_retention_time = ''P7D'',
      d_tags = Map.empty\<rparr>"

definition example_data :: ResourceData where
  "example_data = new_data\<lparr>d_Id := example_id, IsNewResource := False\<rparr>"

definition absent_client :: EnvironmentsClient where
  "absent_client =
     \<lparr>Get = (\<lambda>log g n. (\<lparr>Response = Some 404, Value = None\<rparr>, Some ''not found'')),
      CreateOrUpdate = (\<lambda>log g n p. None),
      WaitForCompletionRef = (\<lambda>log g n. None),
      Delete = (\<lambda>log g n. (Some 404, Some ''not found''))\<rparr>"

definition existing_client :: "BasicEnvironmentResource \<Rightarrow> EnvironmentsClient" where
  "existing_client v =
     \<lparr>Get = (\<lambda>log g n. (\<lparr>Response = Some 200, Value = Some v\<rparr>, None)),
      CreateOrUpdate = (\<lambda>log g n p. None),
      WaitForCompletionRef = (\<lambda>log g n. None),
      Delete = (\<lambda>log g n. (Some 200, None))\<rparr>"

definition example_environment :: StandardEnvironmentResource where
  "example_environment =
     \<lparr>EnvSku = Some \<lparr>Name = S1, Capacity = Some 5\<rparr>, EnvID = Some example_id, EnvName = Some ''env1'',
      EnvLocation = Some ''westus'', EnvTags = Map.empty, EnvProperties = None\<rparr>"

section \<open>Properties\<close>

subsection \<open>Splitting and decimal numbers\<close>

lemma length_Split: "length (Split s sep) = Suc (count_list s sep)"
  by (induction s) (auto split: list.splits)

lemma Split_no_sep: "sep \<notin> set xs \<Longrightarrow> Split xs sep = [xs]"
  by (induction xs) auto

lemma Split_append: "sep \<notin> set xs \<Longrightarrow> Split (xs @ sep # ys) sep = xs # Split ys sep"
  by (induction xs) auto

lemma scan_digits_append:
  "scan_digits n (xs @ ys) = (case scan_digits n xs of Inl e \<Rightarrow> Inl e | Inr v \<Rightarrow> scan_digits v ys)"
  by (induction xs arbitrary: n) auto

lemma is_digit_digit_char: "d < 10 \<Longrightarrow> is_digit (digit_char d)"
  by (simp add: is_digit_def digit_char_def)

lemma digit_val_digit_char: "d < 10 \<Longrightarrow> digit_val (digit_char d) = d"
  by (simp add: digit_val_def digit_char_def)

lemma digits_all_digit: "list_all is_digit (digits m)"
proof (induction m rule: digits.induct)
  case (1 n)
  show ?case
  proof (cases "n < 10")
    case True
    then show ?thesis by (simp add: digits.simps [of n] is_digit_digit_char)
  next
    case False
    with 1 show ?thesis by (simp add: digits.simps [of n] is_digit_digit_char)
  qed
qed

lemma digits_nonempty: "digits m \<noteq> []"
  by (subst digits.simps) simp

lemma scan_digits_digits: "m < 2 ^ 64 \<Longrightarrow> scan_digits 0 (digits m) = Inr m"
proof (induction m rule: digits.induct)
  case (1 n)
  show ?case
  proof (cases "n < 10")
    case True
    then show ?thesis
      by (simp add: digits.simps [of n] is_digit_digit_char digit_val_digit_char)
  next
    case False
    have "n div 10 \<le> n" by (rule div_le_dividend)
    then have "n div 10 < 2 ^ 64" using 1(2) by (rule le_less_trans)
    with 1(1) False have ih: "scan_digits 0 (digits (n div 10)) = Inr (n div 10)" by blast
    have d: "n mod 10 < 10" by simp
    have v: "n div 10 * 10 + n mod 10 = n" by simp
    have "scan_digits 0 (digits n) = scan_digits (n div 10) [digit_char (n mod 10)]"
      using False by (simp add: digits.simps [of n] scan_digits_append ih)
    also have "\<dots> = Inr n"
      using 1(2) by (simp add: is_digit_digit_char [OF d] digit_val_digit_char [OF d] v)
    finally show ?thesis .
  qed
qed

lemma is_digit_not_sign: "is_digit c \<Longrightarrow> c \<noteq> CHR ''-'' \<and> c \<noteq> CHR ''+'' \<and> c \<noteq> CHR ''_''"
  by (auto simp: is_digit_def)

lemma hd_digits: "is_digit (hd (digits m))"
  using digits_all_digit [of m] digits_nonempty [of m]
  by (cases "digits m") simp_all

lemma Atoi_nonneg: "m < 2 ^ 63 \<Longrightarrow> Atoi (digits m) = Inr (word_of_nat m)"
  using is_digit_not_sign [OF hd_digits [of m]] digits_nonempty [of m]
  by (simp add: Atoi_def scan_digits_digits)

lemma Atoi_neg: "m \<le> 2 ^ 63 \<Longrightarrow> Atoi (CHR ''-'' # digits m) = Inr (- word_of_nat m)"
  using digits_nonempty [of m]
  by (simp add: Atoi_def scan_digits_digits)

lemma Atoi_FormatInt:
  assumes "- (2 ^ 63) \<le> i" "i < 2 ^ 63"
  shows "Atoi (FormatInt i) = Inr (word_of_int i)"
proof (cases "i < 0")
  case True
  have "nat (- i) \<le> 2 ^ 63" using assms True by simp
  then have "Atoi (CHR ''-'' # digits (nat (- i))) = Inr (- word_of_nat (nat (- i)))"
    by (rule Atoi_neg)
  moreover have "(word_of_nat (nat (- i)) :: 64 word) = word_of_int (- i)"
    using True by (intro of_nat_nat) simp
  ultimately show ?thesis using True by (simp add: FormatInt_def)
next
  case False
  have "nat i < 2 ^ 63" using assms False by simp
  then have "Atoi (digits (nat i)) = Inr (word_of_nat (nat i))" by (rule Atoi_nonneg)
  moreover have "(word_of_nat (nat i) :: 64 word) = word_of_int i"
    using False by (intro of_nat_nat) simp
  ultimately show ?thesis using False by (simp add: FormatInt_def)
qed

lemma ucast_64_32: "(ucast (word_of_int i :: 64 word) :: 32 word) = word_of_int i"
  by (rule ucast_down_wi) (simp add: is_down)

lemma underscore_notin_FormatInt: "CHR ''_'' \<notin> set (FormatInt i)"
proof -
  have "\<forall>c \<in> set (digits m). c \<noteq> CHR ''_''" for m
    using digits_all_digit [of m] is_digit_not_sign by (auto simp: list_all_iff)
  then show ?thesis by (auto simp: FormatInt_def)
qed

lemma Split_tier_capacity:
  assumes "tier = S1 \<or> tier = S2"
  shows "Split (tier @ ''_'' @ FormatInt i) CHR ''_'' = [tier, FormatInt i]"
proof -
  have "CHR ''_'' \<notin> set tier" using assms by (auto simp: S1_def S2_def)
  then have "Split (tier @ CHR ''_'' # FormatInt i) CHR ''_'' = tier # Split (FormatInt i) CHR ''_''"
    by (rule Split_append)
  then show ?thesis by (simp add: Split_no_sep [OF underscore_notin_FormatInt])
qed

lemma expand_tier_capacity:
  assumes "tier = S1 \<or> tier = S2" "- (2 ^ 63) \<le> i" "i < 2 ^ 63"
  shows "expandEnvironmentSkuName (tier @ ''_'' @ FormatInt i) =
         Inr \<lparr>Name = tier, Capacity = Some (word_of_int i)\<rparr>"
proof -
  have "expandEnvironmentSkuName (tier @ ''_'' @ FormatInt i) =
        Inr \<lparr>Name = tier, Capacity = Some (ucast (word_of_int i :: 64 word))\<rparr>"
    using assms(1)
    unfolding expandEnvironmentSkuName_def Split_tier_capacity [OF assms(1)]
      by (auto simp: index_def Atoi_FormatInt [OF assms(2,3)] S1_def S2_def)
  then show ?thesis by (simp only: ucast_64_32)
qed

subsection \<open>The validators and the SKU transforms\<close>

lemma word_char_a: "name_char CHR ''a''"
  by (simp add: name_char_def word_char_def)

lemma upto_1_10: "[1..10] = [1, 2, 3, 4, 5, 6, 7, 8, 9, 10]"
  by (simp add: upto.simps)

lemma spec_sku_names_eq: "spec_sku_names = sku_name_values"
  by (simp add: spec_sku_names_def sku_name_values_def S1_def S2_def FormatInt_def upto_1_10
      digits.simps digit_char_def char_of_def bit_iff_odd)

lemma in_spec_sku_names:
  "v \<in> set spec_sku_names \<longleftrightarrow>
   (\<exists>c. 1 \<le> c \<and> c \<le> 10 \<and> (v = S1 @ ''_'' @ FormatInt c \<or> v = S2 @ ''_'' @ FormatInt c))"
  by (auto simp: spec_sku_names_def)

lemma expand_valid_sku_name:
  assumes "v \<in> set spec_sku_names"
  shows "\<exists>tier c. (tier = S1 \<or> tier = S2) \<and> 1 \<le> c \<and> c \<le> 10 \<and> v = tier @ ''_'' @ FormatInt c \<and>
           expandEnvironmentSkuName v = Inr \<lparr>Name = tier, Capacity = Some (word_of_int c)\<rparr>"
proof -
  from assms obtain tier c where
    tc: "tier = S1 \<or> tier = S2" "1 \<le> c" "c \<le> 10" "v = tier @ ''_'' @ FormatInt c"
    unfolding in_spec_sku_names by blast
  have "expandEnvironmentSkuName (tier @ ''_'' @ FormatInt c) =
        Inr \<lparr>Name = tier, Capacity = Some (word_of_int c)\<rparr>"
    using tc(1) by (rule expand_tier_capacity) (use tc(2,3) in simp_all)
  with tc show ?thesis by blast
qed

lemma sint_small: "1 \<le> c \<Longrightarrow> c \<le> 10 \<Longrightarrow> sint (word_of_int c :: 32 word) = c"
  by (simp add: sint_sbintrunc' signed_take_bit_int_eq_self)

lemma sint_range_32: "- (2 ^ 63) \<le> sint (c :: 32 word) \<and> sint c < 2 ^ 63"
proof -
  have "- (2 ^ 31) \<le> sint c" "sint c < 2 ^ 31"
    using sint_ge [of c] sint_lt [of c] by simp_all
  then show ?thesis by simp
qed

lemma flatten_Some:
  "flattenEnvironmentSkuName (Some \<lparr>Name = n, Capacity = Some c\<rparr>) = Inr (n @ ''_'' @ FormatInt (sint c))"
  by (simp add: flattenEnvironmentSkuName_def deref_def)

lemma expand_flatten:
  assumes "tier = S1 \<or> tier = S2"
  shows "\<exists>s. flattenEnvironmentSkuName (Some \<lparr>Name = tier, Capacity = Some c\<rparr>) = Inr s \<and>
             expandEnvironmentSkuName s = Inr \<lparr>Name = tier, Capacity = Some c\<rparr>"
proof -
  have "expandEnvironmentSkuName (tier @ ''_'' @ FormatInt (sint c)) =
        Inr \<lparr>Name = tier, Capacity = Some (word_of_int (sint c))\<rparr>"
    using assms sint_range_32 [of c] by (intro expand_tier_capacity) simp_all
  then show ?thesis by (simp add: flatten_Some)
qed

lemma flatten_expand:
  assumes "v \<in> set spec_sku_names"
  shows "\<exists>sku. expandEnvironmentSkuName v = Inr sku \<and> flattenEnvironmentSkuName (Some sku) = Inr v"
proof -
  from expand_valid_sku_name [OF assms] obtain tier c where
    tc: "1 \<le> c" "c \<le> 10" "v = tier @ ''_'' @ FormatInt c"
      "expandEnvironmentSkuName v = Inr \<lparr>Name = tier, Capacity = Some (word_of_int c)\<rparr>"
    by blast
  have "flattenEnvironmentSkuName (Some \<lparr>Name = tier, Capacity = Some (word_of_int c)\<rparr>) = Inr v"
    using tc(1,2,3) by (simp add: flatten_Some sint_small)
  with tc(4) show ?thesis by blast
qed

lemma valid_sku_name_expands:
  "sku_name_ValidateFunc v \<Longrightarrow> \<exists>sku. expandEnvironmentSkuName v = Inr sku"
  using expand_valid_sku_name [of v]
  by (auto simp: sku_name_ValidateFunc_def spec_sku_names_eq)

lemma sku_name_accepted_iff_values: "sku_name_accepted v \<longleftrightarrow> v \<in> set sku_name_values"
  using valid_sku_name_expands [of v]
  by (auto simp: sku_name_accepted_def sku_name_ValidateFunc_def)

text \<open>
  C1. For every string of two parts whose first part is a known tier and whose second
  part is no integer, such as \<open>S1_x\<close>, the parser returns an error for the capacity.
  The code does not: to build that error it reads \<^verbatim>\<open>parts[2]\<close> of a slice of length 2
  and panics.
\<close>

theorem expand_S1_x_panics:
  "expandEnvironmentSkuName ''S1_x'' = Inl (Panic (IndexOutOfRange 2 2))"
  by (simp add: expandEnvironmentSkuName_def index_def Atoi_def is_digit_def)

lemma expand_bad_capacity_panics:
  assumes "Split v CHR ''_'' = [tier, c]" "tier = ''S1'' \<or> tier = ''S2''" "Atoi c = Inl e"
  shows "expandEnvironmentSkuName v = Inl (Panic (IndexOutOfRange 2 2))"
  using assms by (auto simp: expandEnvironmentSkuName_def index_def)

text \<open>
  C2. For every tier of \<open>S1\<close>, \<open>S2\<close> and every capacity from 1 to 10, parsing the formatted
  SKU gives the SKU back; and for every string of the enumerated set, formatting the
  parsed string gives the string back.
\<close>

theorem sku_round_trip:
  "(\<forall>tier \<in> {S1, S2}. \<forall>capacity \<in> {1..10}.
      \<exists>s. flattenEnvironmentSkuName (Some \<lparr>Name = tier, Capacity = Some capacity\<rparr>) = Inr s \<and>
          expandEnvironmentSkuName s = Inr \<lparr>Name = tier, Capacity = Some capacity\<rparr>) \<and>
   (\<forall>s \<in> set spec_sku_names.
      \<exists>sku. expandEnvironmentSkuName s = Inr sku \<and> flattenEnvironmentSkuName (Some sku) = Inr s)"
  using expand_flatten flatten_expand by auto

theorem sku_round_trip_witness:
  "S2 \<in> {S1, S2} \<and> (7 :: 32 word) \<in> {1..10} \<and> ''S2_7'' \<in> set spec_sku_names \<and>
   (\<exists>s. flattenEnvironmentSkuName (Some \<lparr>Name = S2, Capacity = Some 7\<rparr>) = Inr s \<and>
        expandEnvironmentSkuName s = Inr \<lparr>Name = S2, Capacity = Some 7\<rparr>) \<and>
   (\<exists>sku. expandEnvironmentSkuName ''S2_7'' = Inr sku \<and> flattenEnvironmentSkuName (Some sku) = Inr ''S2_7'')"
proof -
  have a: "S2 \<in> {S1, S2}" by simp
  have b: "(7 :: 32 word) \<in> {1..10}" by simp
  have c: "''S2_7'' \<in> set spec_sku_names" by (simp add: spec_sku_names_eq sku_name_values_def)
  from sku_round_trip a b c show ?thesis by blast
qed

text \<open>
  C3. The validator of the name accepts exactly the strings of 1 to 90 characters of
  the class; the code's regular expression has no upper bound, so a name of 91
  characters of the class passes it, against the 1 - 90 of its own message.
\<close>

theorem name_of_91_characters_accepted:
  "name_ValidateFunc (replicate 91 CHR ''a'') \<and> \<not> spec_name_pattern (replicate 91 CHR ''a'')"
  by (simp add: name_ValidateFunc_def spec_name_pattern_def list_all_iff word_char_a)

lemma name_ValidateFunc_iff:
  "name_ValidateFunc v \<longleftrightarrow> 1 \<le> length v \<and> (\<forall>c \<in> set v. name_char c)"
  by (cases v) (simp_all add: name_ValidateFunc_def list_all_iff)

lemma spec_name_pattern_accepted: "spec_name_pattern v \<Longrightarrow> name_ValidateFunc v"
  by (auto simp: spec_name_pattern_def name_ValidateFunc_def)

text \<open>
  C4. A SKU string passes the validator of the schema and parses without error if and
  only if it is in the enumerated set; \<open>S1_11\<close> and \<open>S1_0\<close> are not accepted.
\<close>

theorem sku_name_accepted_iff:
  "(sku_name_accepted v \<longleftrightarrow> v \<in> set spec_sku_names) \<and>
   \<not> sku_name_accepted ''S1_11'' \<and> \<not> sku_name_accepted ''S1_0''"
  by (simp add: sku_name_accepted_iff_values spec_sku_names_eq) (simp add: sku_name_values_def)

theorem sku_name_accepted_iff_witness:
  "''S2_10'' \<in> set spec_sku_names \<and> sku_name_accepted ''S2_10'' \<and>
   ''S1_11'' \<notin> set spec_sku_names \<and> \<not> sku_name_accepted ''S1_11''"
  using sku_name_accepted_iff [of "''S2_10''"] sku_name_accepted_iff [of "''S1_11''"]
  by (simp add: spec_sku_names_eq sku_name_values_def)

text \<open>
  C8. A string that does not split on the underscore into exactly two parts is
  refused with the error for the number of parts, and no SKU is returned.
\<close>

theorem expand_wrong_number_of_parts:
  "length (Split v CHR ''_'') \<noteq> 2 \<Longrightarrow>
   expandEnvironmentSkuName v = Inl (Error (WrongNumberOfParts v (length (Split v CHR ''_''))))"
  by (simp add: expandEnvironmentSkuName_def)

theorem expand_wrong_number_of_parts_witness:
  "length (Split ''S1'' CHR ''_'') \<noteq> 2 \<and> length (Split ''S1_2_3'' CHR ''_'') \<noteq> 2 \<and>
   expandEnvironmentSkuName ''S1'' = Inl (Error (WrongNumberOfParts ''S1'' 1)) \<and>
   expandEnvironmentSkuName ''S1_2_3'' = Inl (Error (WrongNumberOfParts ''S1_2_3'' 3))"
proof -
  have a: "length (Split ''S1'' CHR ''_'') \<noteq> 2" by simp
  have b: "length (Split ''S1_2_3'' CHR ''_'') \<noteq> 2" by simp
  show ?thesis
    using a b expand_wrong_number_of_parts [OF a] expand_wrong_number_of_parts [OF b] by simp
qed

text \<open>
  C9. Formatting a SKU is total: for every input, the nil SKU and the SKU without
  capacity included, it returns a string and no read through a pointer panics; for
  these two inputs the string is empty.
\<close>

theorem flatten_total:
  "(\<exists>s. flattenEnvironmentSkuName input = Inr s) \<and>
   flattenEnvironmentSkuName None = Inr '''' \<and>
   flattenEnvironmentSkuName (Some (sku\<lparr>Capacity := None\<rparr>)) = Inr ''''"
proof -
  have total: "\<exists>s. flattenEnvironmentSkuName input = Inr s"
  proof (cases input)
    case None
    then show ?thesis by (simp add: flattenEnvironmentSkuName_def)
  next
    case (Some present)
    show ?thesis
    proof (cases "Capacity present")
      case None
      with Some show ?thesis by (simp add: flattenEnvironmentSkuName_def deref_def)
    next
      case (Some c)
      with \<open>input = Some present\<close> show ?thesis
        by (simp add: flattenEnvironmentSkuName_def deref_def)
    qed
  qed
  have nil: "flattenEnvironmentSkuName None = Inr []"
    by (simp add: flattenEnvironmentSkuName_def)
  have no_capacity: "flattenEnvironmentSkuName (Some (sku\<lparr>Capacity := None\<rparr>)) = Inr []"
    by (simp add: flattenEnvironmentSkuName_def deref_def)
  from total nil no_capacity show ?thesis by simp
qed

text \<open>
  C10. For a tier of \<open>S1\<close>, \<open>S2\<close> and an integer that fits 64 bits but not 32, the
  parser succeeds and stores the capacity modulo \<open>2^32\<close>; \<open>S1_4294967297\<close> gives 1.
\<close>

theorem expand_truncates_capacity:
  assumes "tier = S1 \<or> tier = S2"
    and "- (2 ^ 63) \<le> i" and "i < 2 ^ 63"
    and "i < - (2 ^ 31) \<or> 2 ^ 31 \<le> i"
  shows "\<exists>c. expandEnvironmentSkuName (tier @ ''_'' @ FormatInt i) = Inr \<lparr>Name = tier, Capacity = Some c\<rparr> \<and>
             uint c = i mod 2 ^ 32"
proof -
  have "expandEnvironmentSkuName (tier @ ''_'' @ FormatInt i) =
        Inr \<lparr>Name = tier, Capacity = Some (word_of_int i)\<rparr>"
    using assms(1,2,3) by (rule expand_tier_capacity)
  moreover have "uint (word_of_int i :: 32 word) = i mod 2 ^ 32"
    by (simp add: uint_word_of_int)
  ultimately show ?thesis by blast
qed

lemma FormatInt_4294967297: "FormatInt 4294967297 = ''4294967297''"
  by (simp add: FormatInt_def digits.simps digit_char_def char_of_def bit_iff_odd)

theorem expand_truncates_capacity_witness:
  "(S1 = S1 \<or> S1 = S2) \<and> - (2 ^ 63) \<le> (4294967297 :: int) \<and> (4294967297 :: int) < 2 ^ 63 \<and>
   ((4294967297 :: int) < - (2 ^ 31) \<or> 2 ^ 31 \<le> (4294967297 :: int)) \<and>
   expandEnvironmentSkuName ''S1_4294967297'' = Inr \<lparr>Name = S1, Capacity = Some 1\<rparr>"
proof -
  have a: "S1 = S1 \<or> S1 = S2" by simp
  have b: "- (2 ^ 63) \<le> (4294967297 :: int)" by simp
  have c: "(4294967297 :: int) < 2 ^ 63" by simp
  have d: "(4294967297 :: int) < - (2 ^ 31) \<or> 2 ^ 31 \<le> (4294967297 :: int)" by simp
  from expand_truncates_capacity [OF a b c d] obtain cap :: "32 word" where
    e: "expandEnvironmentSkuName (S1 @ ''_'' @ FormatInt 4294967297) = Inr \<lparr>Name = S1, Capacity = Some cap\<rparr>"
    and u: "uint cap = 4294967297 mod 2 ^ 32" by blast
  from u have "uint cap = uint (1 :: 32 word)" by simp
  then have "cap = 1" by (simp only: word_uint_eq_iff)
  with e a b c d show ?thesis by (simp add: FormatInt_4294967297 S1_def)
qed

subsection \<open>The handlers\<close>

text \<open>
  C5. When the ID parses and the Get fails with a "not found" response (an error, or
  no resource in the answer, with status 404), the read clears the ID and returns no
  error; the Get is the only request it sends.
\<close>

theorem read_absent:
  assumes "TimeSeriesInsightsEnvironmentID h (d_Id d) = Inr parsed"
    and "Get client log (ResourceGroup parsed) (IdName parsed) = (resp, err)"
    and "err \<noteq> None \<or> Value resp = None"
    and "ResponseWasNotFound (Response resp)"
  shows "resourceArmTimeSeriesInsightsEnvironmentRead h client d log =
         (None, d\<lparr>d_Id := ''''\<rparr>, log @ [GetRequest (ResourceGroup parsed) (IdName parsed)])"
  using assms by (simp add: resourceArmTimeSeriesInsightsEnvironmentRead_def Let_def)

lemma example_id_parses:
  "TimeSeriesInsightsEnvironmentID example_helpers (d_Id example_data) =
   Inr \<lparr>ResourceGroup = ''rg'', IdName = ''env1''\<rparr>"
  by (simp add: example_helpers_def example_data_def)

theorem read_absent_witness:
  "TimeSeriesInsightsEnvironmentID example_helpers (d_Id example_data) =
     Inr \<lparr>ResourceGroup = ''rg'', IdName = ''env1''\<rparr> \<and>
   Get absent_client [] ''rg'' ''env1'' = (\<lparr>Response = Some 404, Value = None\<rparr>, Some ''not found'') \<and>
   ResponseWasNotFound (Some 404) \<and>
   resourceArmTimeSeriesInsightsEnvironmentRead example_helpers absent_client example_data [] =
     (None, example_data\<lparr>d_Id := ''''\<rparr>, [GetRequest ''rg'' ''env1''])"
proof -
  note a = example_id_parses
  have b: "Get absent_client [] (ResourceGroup \<lparr>ResourceGroup = ''rg'', IdName = ''env1''\<rparr>)
             (IdName \<lparr>ResourceGroup = ''rg'', IdName = ''env1''\<rparr>) =
           (\<lparr>Response = Some 404, Value = None\<rparr>, Some ''not found'')"
    by (simp add: absent_client_def)
  have c: "Some ''not found'' \<noteq> None \<or> Value \<lparr>Response = Some 404, Value = None\<rparr> = None" by simp
  have e: "ResponseWasNotFound (Response \<lparr>Response = Some 404, Value = None\<rparr>)"
    by (simp add: ResponseWasNotFound_def)
  from read_absent [OF a b c e] a b e show ?thesis by simp
qed

text \<open>
  C6. When the ID parses and the remote answers the Delete with "not found", the
  handler returns no error, whether the SDK reports an error or not.
\<close>

theorem delete_absent:
  assumes "TimeSeriesInsightsEnvironmentID h (d_Id d) = Inr parsed"
    and "Delete client log (ResourceGroup parsed) (IdName parsed) = (response, err)"
    and "ResponseWasNotFound response"
  shows "resourceArmTimeSeriesInsightsEnvironmentDelete h client d log =
         (None, d, log @ [DeleteRequest (ResourceGroup parsed) (IdName parsed)])"
  using assms by (simp add: resourceArmTimeSeriesInsightsEnvironmentDelete_def Let_def split: option.splits)

theorem delete_absent_witness:
  "TimeSeriesInsightsEnvironmentID example_helpers (d_Id example_data) =
     Inr \<lparr>ResourceGroup = ''rg'', IdName = ''env1''\<rparr> \<and>
   Delete absent_client [] ''rg'' ''env1'' = (Some 404, Some ''not found'') \<and>
   ResponseWasNotFound (Some 404) \<and>
   resourceArmTimeSeriesInsightsEnvironmentDelete example_helpers absent_client example_data [] =
     (None, example_data, [DeleteRequest ''rg'' ''env1''])"
proof -
  note a = example_id_parses
  have b: "Delete absent_client [] (ResourceGroup \<lparr>ResourceGroup = ''rg'', IdName = ''env1''\<rparr>)
             (IdName \<lparr>ResourceGroup = ''rg'', IdName = ''env1''\<rparr>) = (Some 404, Some ''not found'')"
    by (simp add: absent_client_def)
  have c: "ResponseWasNotFound (Some 404)" by (simp add: ResponseWasNotFound_def)
  from delete_absent [OF a b c] a b c show ?thesis by simp
qed

lemma check_existing_found:
  assumes "Get client log g n = (existing, None)" "Value existing = Some v"
    and "ID_of v = Some i" "i \<noteq> ''''"
  shows "check_existing client g n log =
         (Some (Error (if AsStandardEnvironmentResource v = None then ExistingNotStandard n g
                       else ImportAsExists ''azurerm_time_series_insights_environment'' i)),
          log @ [GetRequest g n])"
  using assms by (cases v) (simp_all add: check_existing_def Let_def)

text \<open>
  C7, as amended. With resources to be imported, a new resource and a \<^verbatim>\<open>sku_name\<close> the
  schema accepts, when the Get before the creation succeeds and finds a resource with a
  non-empty ID, the handler returns the import error naming that ID if the resource is a
  standard environment and the error of line 132 if it is of another kind; either way
  the Get is the only request sent, so no mutating one.
\<close>

theorem create_update_existing:
  assumes "ShouldResourcesBeImported h" and "IsNewResource d"
    and "sku_name_ValidateFunc (d_sku_name d)"
    and "Get client log (d_resource_group_name d) (d_name d) = (existing, None)"
    and "Value existing = Some v" and "ID_of v = Some i" and "i \<noteq> ''''"
  shows "resourceArmTimeSeriesInsightsEnvironmentCreateUpdate h client d log =
           (Some (Error (if AsStandardEnvironmentResource v = None
                         then ExistingNotStandard (d_name d) (d_resource_group_name d)
                         else ImportAsExists ''azurerm_time_series_insights_environment'' i)),
            d, log @ [GetRequest (d_resource_group_name d) (d_name d)]) \<and>
         list_all (\<lambda>r. \<not> mutating r) [GetRequest (d_resource_group_name d) (d_name d)]"
proof -
  from assms(3) obtain sku where "expandEnvironmentSkuName (d_sku_name d) = Inr sku"
    using valid_sku_name_expands by blast
  then show ?thesis
    using assms(1,2)
    by (simp add: resourceArmTimeSeriesInsightsEnvironmentCreateUpdate_def Let_def
        check_existing_found [OF assms(4,5,6,7)])
qed

theorem create_update_existing_witness:
  "ShouldResourcesBeImported example_helpers \<and> IsNewResource new_data \<and>
   sku_name_ValidateFunc (d_sku_name new_data) \<and>
   Get (existing_client (AStandardEnvironmentResource example_environment)) [] ''rg'' ''env1'' =
     (\<lparr>Response = Some 200, Value = Some (AStandardEnvironmentResource example_environment)\<rparr>, None) \<and>
   ID_of (AStandardEnvironmentResource example_environment) = Some example_id \<and> example_id \<noteq> '''' \<and>
   resourceArmTimeSeriesInsightsEnvironmentCreateUpdate example_helpers
     (existing_client (AStandardEnvironmentResource example_environment)) new_data [] =
     (Some (Error (ImportAsExists ''azurerm_time_series_insights_environment'' example_id)), new_data,
      [GetRequest ''rg'' ''env1''])"
proof -
  let ?v = "AStandardEnvironmentResource example_environment"
  let ?resp = "\<lparr>Response = Some 200, Value = Some ?v\<rparr>"
  have a: "ShouldResourcesBeImported example_helpers" by (simp add: example_helpers_def)
  have b: "IsNewResource new_data" by (simp add: new_data_def)
  have k: "sku_name_ValidateFunc (d_sku_name new_data)"
    by (simp add: sku_name_ValidateFunc_def new_data_def sku_name_values_def)
  have n: "d_resource_group_name new_data = ''rg''" "d_name new_data = ''env1''"
    by (simp_all add: new_data_def)
  have c: "Get (existing_client ?v) [] (d_resource_group_name new_data) (d_name new_data) = (?resp, None)"
    by (simp add: existing_client_def)
  have e: "Value ?resp = Some ?v" by simp
  have f: "ID_of ?v = Some example_id" by (simp add: example_environment_def)
  have g: "example_id \<noteq> []" by (simp add: example_id_def)
  from create_update_existing [OF a b k c e f g] a b k c f g n show ?thesis by simp
qed

lemma create_update_unparsed_sku:
  assumes "expandEnvironmentSkuName (d_sku_name d) = Inl f"
  shows "resourceArmTimeSeriesInsightsEnvironmentCreateUpdate h client d log =
         (Some (case f of Error e \<Rightarrow> Error (ExpandingSku e) | Panic p \<Rightarrow> Panic p), d, log)"
  using assms by (cases f) (simp_all add: resourceArmTimeSeriesInsightsEnvironmentCreateUpdate_def)

text \<open>
  C7, as stated, fails for an existing long-term environment: the handler stops at the
  check of the kind (lines 130 to 133) with the error of line 132, not the import error.
\<close>

theorem create_update_long_term_counterexample:
  "ShouldResourcesBeImported example_helpers \<and> IsNewResource new_data \<and>
   sku_name_ValidateFunc (d_sku_name new_data) \<and>
   Get (existing_client (ALongTermEnvironmentResource (Some example_id))) [] ''rg'' ''env1'' =
     (\<lparr>Response = Some 200, Value = Some (ALongTermEnvironmentResource (Some example_id))\<rparr>, None) \<and>
   ID_of (ALongTermEnvironmentResource (Some example_id)) = Some example_id \<and> example_id \<noteq> '''' \<and>
   resourceArmTimeSeriesInsightsEnvironmentCreateUpdate example_helpers
     (existing_client (ALongTermEnvironmentResource (Some example_id))) new_data [] =
     (Some (Error (ExistingNotStandard ''env1'' ''rg'')), new_data, [GetRequest ''rg'' ''env1'']) \<and>
   ExistingNotStandard ''env1'' ''rg'' \<noteq> ImportAsExists ''azurerm_time_series_insights_environment'' example_id"
  by (simp add: resourceArmTimeSeriesInsightsEnvironmentCreateUpdate_def check_existing_def Let_def
      example_helpers_def new_data_def existing_client_def example_id_def
      sku_name_ValidateFunc_def sku_name_values_def
      expandEnvironmentSkuName_def index_def Atoi_def is_digit_def digit_val_def)

end
